theory Spec2Isabelle
  imports Main
begin

section \<open>Data model of bot.py\<close>

text \<open>
  Python exceptions that the modelled code can raise. \<open>NotFound\<close> is
  \<open>docker.errors.NotFound\<close>; \<open>SystemExit\<close> is \<open>sys.exit()\<close>;
  \<open>BadArgument\<close> and \<open>DisabledCommand\<close> are the exceptions with which
  \<open>discord.ext.commands\<close> rejects an invocation before the function of the command
  runs. \<open>OutsideModel\<close> marks the one place where the code leaves the typed document
  (see \<open>update_entry\<close>).
\<close>

datatype py_error =
  TypeError | KeyError | IndexError | AttributeError | ValueError
  | NotFound | JSONDecodeError | SystemExit | BadArgument | DisabledCommand | OutsideModel

text \<open>
  One element of \<open>json_permissions["servers"]\<close>: a dict with the key \<open>"name"\<close>
  (a string) and further keys, each holding a list of user ids (strings). The further keys
  are a partial map, so that a key the dict does not have is \<open>None\<close>.
\<close>

record entry =
  name :: string
  acts :: "string \<rightharpoonup> string list"

text \<open>
  The loaded JSON document: \<open>admins\<close> is \<open>json_permissions["users"]["admins"]\<close>,
  \<open>servers\<close> is \<open>json_permissions["servers"]\<close>.
\<close>

record document =
  admins :: "string list"
  servers :: "entry list"

text \<open>
  The docker client, as far as bot.py uses it: \<open>containers_list\<close> are the names of
  \<open>docker_client.containers.list(all=True)\<close>; \<open>containers_get\<close> gives the status
  of the handle \<open>docker_client.containers.get(name)\<close>, \<open>None\<close> when it raises
  \<open>NotFound\<close>; \<open>exec_run\<close> is the decoded output of a command run in a container.
\<close>

record backend =
  containers_list :: "string list"
  containers_get :: "string \<rightharpoonup> string"
  exec_run :: "string \<Rightarrow> string \<Rightarrow> string"

text \<open>
  The permissions file on disk. \<open>Dumped d\<close> is a file holding the JSON text of the
  document \<open>d\<close> (what \<open>json.dumps\<close> writes and \<open>json.load\<close> reads back);
  \<open>ZeroBytes\<close> is an empty file; \<open>Denied\<close> and \<open>IOFailure\<close> are files whose
  opening raises \<open>PermissionError\<close> or another \<open>OSError\<close>, with the text
  \<open>errno: strerror\<close> of the exception.
\<close>

datatype perm_file =
  Absent | Denied string | IOFailure string | ZeroBytes | Dumped document

text \<open>The module-level state: the global \<open>json_permissions\<close> (\<open>None\<close> is Python's
  \<open>None\<close>), the file \<open>PERMISSIONS_FILE\<close> and the docker client.\<close>

record world =
  json_permissions :: "document option"
  permissions_file :: perm_file
  docker_client :: backend

text \<open>The commands registered with the bot; \<open>command_name\<close> is \<open>ctx.command.name\<close>.\<close>

datatype command =
  Status | Restart | Kill | Start | Cmd | Backup | Restore | List_backups
  | Bot_uptime | Permissions | Dump_perms | Get_logs

fun command_name :: "command \<Rightarrow> string" where
  "command_name Status = ''status''"
| "command_name Restart = ''restart''"
| "command_name Kill = ''kill''"
| "command_name Start = ''start''"
| "command_name Cmd = ''cmd''"
| "command_name Backup = ''backup''"
| "command_name Restore = ''restore''"
| "command_name List_backups = ''list_backups''"
| "command_name Bot_uptime = ''bot_uptime''"
| "command_name Permissions = ''permissions''"
| "command_name Dump_perms = ''dump_perms''"
| "command_name Get_logs = ''get_logs''"

text \<open>
  The invocation context \<open>ctx\<close>: \<open>author\<close> is \<open>str(ctx.author)\<close>, \<open>author_id\<close> is
  \<open>str(ctx.author.id)\<close>, \<open>channel\<close> is \<open>str(ctx.channel)\<close>, \<open>mentions\<close> are the
  ids \<open>str(m.id)\<close> of \<open>ctx.message.mentions\<close>, \<open>private_or_group\<close> says whether
  \<open>ctx.channel.type\<close> is private or group, \<open>dm_channel\<close> whether
  \<open>ctx.author.dm_channel\<close> is set. \<open>send_fails text\<close> says whether \<open>ctx.send(text)\<close>
  raises \<open>discord.HTTPException\<close>; only get\_logs handles that exception, and the model
  consults it only there.
\<close>

record ctx =
  command :: command
  author :: string
  author_id :: string
  channel :: string
  mentions :: "string list"
  private_or_group :: bool
  dm_channel :: bool
  send_fails :: "string \<Rightarrow> bool"

section \<open>Logging\<close>

text \<open>A line of the log file, without its timestamp: the category and the message.\<close>

type_synonym log_entry = "string \<times> string"

definition log :: "string \<Rightarrow> string \<Rightarrow> log_entry" where
  "log msg category = (category, msg)"

text \<open>\<open>sep.join(xs)\<close> of Python.\<close>

fun join :: "string \<Rightarrow> string list \<Rightarrow> string" where
  "join sep [] = []"
| "join sep [x] = x"
| "join sep (x # y # ys) = x @ sep @ join sep (y # ys)"

definition log_unauthorized :: "ctx \<Rightarrow> string list \<Rightarrow> log_entry" where
  "log_unauthorized ctx srvs =
     log (''Function '' @ command_name (command ctx) @ '' was called by user '' @ author ctx
          @ '' (id: '' @ author_id ctx @ '') in channel '' @ channel ctx
          @ '' for server(s): ['' @ join '', '' srvs @ ''], ''
          @ ''but user is not authorized.'') ''FORBIDDEN''"

section \<open>perm\_check\<close>

text \<open>
  The list comprehension of the non-admin branch: for each server in order,
  \<open>server[ctx.command.name]\<close> is read first (\<open>KeyError\<close> when the key is missing), and
  the name is collected when the user id is in that list.
\<close>

fun authorized_servers :: "string \<Rightarrow> string \<Rightarrow> entry list \<Rightarrow> py_error + string list" where
  "authorized_servers uid act [] = Inr []"
| "authorized_servers uid act (server # rest) =
     (case acts server act of
        None \<Rightarrow> Inl KeyError
      | Some users \<Rightarrow>
          (case authorized_servers uid act rest of
             Inl e \<Rightarrow> Inl e
           | Inr names \<Rightarrow> Inr (if uid \<in> set users then name server # names else names)))"

definition perm_check :: "world \<Rightarrow> ctx \<Rightarrow> py_error + string list" where
  "perm_check w ctx =
     (case json_permissions w of
        None \<Rightarrow> Inl TypeError
      | Some doc \<Rightarrow>
          if author_id ctx \<in> set (admins doc) then Inr (containers_list (docker_client w))
          else authorized_servers (author_id ctx) (command_name (command ctx)) (servers doc))"

section \<open>Strings of the Python runtime\<close>

text \<open>
  \<open>str.title()\<close> on ASCII text: a letter after a letter is lowered, any other letter is
  raised; characters outside the ASCII letters are uncased and stay as they are.
\<close>

definition ascii_lower :: string where
  "ascii_lower = ''abcdefghijklmnopqrstuvwxyz''"

definition ascii_upper :: string where
  "ascii_upper = ''ABCDEFGHIJKLMNOPQRSTUVWXYZ''"

definition upper_char :: "char \<Rightarrow> char" where
  "upper_char c = (case map_of (zip ascii_lower ascii_upper) c of Some u \<Rightarrow> u | None \<Rightarrow> c)"

definition lower_char :: "char \<Rightarrow> char" where
  "lower_char c = (case map_of (zip ascii_upper ascii_lower) c of Some l \<Rightarrow> l | None \<Rightarrow> c)"

definition cased :: "char \<Rightarrow> bool" where
  "cased c = (c \<in> set ascii_lower \<or> c \<in> set ascii_upper)"

fun title_from :: "bool \<Rightarrow> string \<Rightarrow> string" where
  "title_from previous_is_cased [] = []"
| "title_from previous_is_cased (c # cs) =
     (if previous_is_cased then lower_char c else upper_char c) # title_from (cased c) cs"

definition title :: "string \<Rightarrow> string" where
  "title s = title_from False s"

text \<open>The decimal text of an integer, as an f-string renders it.\<close>

definition digit_char :: "nat \<Rightarrow> char" where
  "digit_char d = ''0123456789'' ! d"

function str_nat :: "nat \<Rightarrow> string" where
  "str_nat n = (if n < 10 then [digit_char n] else str_nat (n div 10) @ [digit_char (n mod 10)])"
  by pat_completeness auto
termination
  by (relation "measure id") auto

declare str_nat.simps [simp del]

definition str_int :: "int \<Rightarrow> string" where
  "str_int i = (if i < 0 then ''-'' @ str_nat (nat (- i)) else str_nat (nat i))"

text \<open>\<open>sub in s\<close> for two Python strings.\<close>

fun is_prefix :: "string \<Rightarrow> string \<Rightarrow> bool" where
  "is_prefix [] s = True"
| "is_prefix (c # cs) [] = False"
| "is_prefix (c # cs) (d # ds) = (c = d \<and> is_prefix cs ds)"

fun contains :: "string \<Rightarrow> string \<Rightarrow> bool" where
  "contains [] sub = (sub = [])"
| "contains (c # cs) sub = (is_prefix sub (c # cs) \<or> contains cs sub)"

section \<open>Loading the permissions at start\<close>

text \<open>
  Lines 50 to 69. The result is the log written, the value of \<open>json_permissions\<close>, the
  file afterwards, and the exception that ends the process, if any. \<open>Path.touch()\<close>
  creates an empty file; nothing is assigned to \<open>json_permissions\<close> on that path, so it
  keeps its initial value \<open>None\<close>. \<open>json.load\<close> of an empty file raises
  \<open>JSONDecodeError\<close>, which none of the handlers catches.
\<close>

record loaded =
  load_logs :: "log_entry list"
  load_permissions :: "document option"
  load_file :: perm_file
  load_raised :: "py_error option"

definition PERMISSIONS_FILE :: string where
  "PERMISSIONS_FILE = ''./permissions.json''"

fun load :: "perm_file \<Rightarrow> loaded" where
  "load (Dumped doc) =
     \<lparr>load_logs = [log (''Loading permissions from '' @ PERMISSIONS_FILE @ ''...'') ''INFO'',
                    log ''Permissions loaded.'' ''INFO''],
      load_permissions = Some doc, load_file = Dumped doc, load_raised = None\<rparr>"
| "load Absent =
     \<lparr>load_logs = [log (''Loading permissions from '' @ PERMISSIONS_FILE @ ''...'') ''INFO'',
                    log ''Permissions file does not exist - creating default schema.'' ''WARNING''],
      load_permissions = None, load_file = ZeroBytes, load_raised = None\<rparr>"
| "load (Denied err) =
     \<lparr>load_logs = [log (''Loading permissions from '' @ PERMISSIONS_FILE @ ''...'') ''INFO'',
                    log (''Permission error encountered while trying to read the permissions ''
                         @ ''json file: '' @ err) ''ERROR''],
      load_permissions = None, load_file = Denied err, load_raised = None\<rparr>"
| "load (IOFailure err) =
     \<lparr>load_logs = [log (''Loading permissions from '' @ PERMISSIONS_FILE @ ''...'') ''INFO'',
                    log (''Error opening permissions file: '' @ err) ''ERROR''],
      load_permissions = None, load_file = IOFailure err, load_raised = Some SystemExit\<rparr>"
| "load ZeroBytes =
     \<lparr>load_logs = [log (''Loading permissions from '' @ PERMISSIONS_FILE @ ''...'') ''INFO''],
      load_permissions = None, load_file = ZeroBytes, load_raised = Some JSONDecodeError\<rparr>"

text \<open>The module state once the process is up.\<close>

definition boot :: "perm_file \<Rightarrow> backend \<Rightarrow> world" where
  "boot f b = \<lparr>json_permissions = load_permissions (load f),
               permissions_file = load_file (load f), docker_client = b\<rparr>"

section \<open>Commands on servers\<close>

text \<open>
  What a command does: the log lines it writes, the calls it makes on containers, the
  messages it sends to the channel, and the exception that ends it, if any.
\<close>

datatype call =
  Container_restart string | Container_kill string | Container_start string
  | Container_exec string string

type_synonym field = "string \<times> string \<times> bool"

datatype message = Embed string "field list" | Text string | Json_dump document

record outcome =
  logs :: "log_entry list"
  calls :: "call list"
  sent :: "message list"
  raised :: "py_error option"

definition not_found_field :: "string \<Rightarrow> field" where
  "not_found_field server = (server, ''Not Found/Invalid Name'', True)"

text \<open>
  The loop \<open>for server in servers\<close> that status, restart, kill and start share. Each
  round calls \<open>perm_check(ctx)\<close> again. \<open>on_handle server st\<close> is what the command does
  with the container it got (its calls and embed fields), \<open>st\<close> being the status of the
  handle. restart, kill and start have a plain \<open>else\<close> where status has
  \<open>elif not autofilled\<close>; they run the loop with \<open>autofilled = False\<close>.
  The result is the log lines, the calls, the fields added to the embed, and the exception
  that broke the loop.
\<close>

fun target_loop ::
  "world \<Rightarrow> ctx \<Rightarrow> bool \<Rightarrow> (string \<Rightarrow> string \<Rightarrow> call list \<times> field list) \<Rightarrow> string list
   \<Rightarrow> log_entry list \<times> call list \<times> field list \<times> py_error option" where
  "target_loop w ctx autofilled on_handle [] = ([], [], [], None)"
| "target_loop w ctx autofilled on_handle (server # rest) =
     (case perm_check w ctx of
        Inl e \<Rightarrow> ([], [], [], Some e)
      | Inr allowed \<Rightarrow>
          (let (l, c, f) =
                 (if server \<in> set allowed then
                    (case containers_get (docker_client w) server of
                       Some st \<Rightarrow> ([], on_handle server st)
                     | None \<Rightarrow> ([], [], [not_found_field server]))
                  else if \<not> autofilled then
                    ([log_unauthorized ctx [server]], [], [not_found_field server])
                  else ([], [], []));
               (ls, cs, fs, err) = target_loop w ctx autofilled on_handle rest
           in (l @ ls, c @ cs, f @ fs, err)))"

text \<open>The embed is sent after the loop, so an exception in the loop sends nothing.\<close>

definition send_embed ::
  "log_entry \<Rightarrow> string \<Rightarrow> log_entry list \<times> call list \<times> field list \<times> py_error option \<Rightarrow> outcome" where
  "send_embed log0 heading r =
     (case r of (ls, cs, fs, err) \<Rightarrow>
        \<lparr>logs = log0 # ls, calls = cs,
         sent = (case err of None \<Rightarrow> [Embed heading fs] | Some e \<Rightarrow> []),
         raised = err\<rparr>)"

definition status_summary :: "string \<Rightarrow> string \<Rightarrow> call list \<times> field list" where
  "status_summary server st = ([], [(server, title st, True)])"

definition status_detail :: "backend \<Rightarrow> string \<Rightarrow> string \<Rightarrow> call list \<times> field list" where
  "status_detail b server st =
     (if st = ''running'' then
        ([Container_exec server ''uptime'',
          Container_exec server ''du -h world/level.dat'',
          Container_exec server ''tail -n3 logs/latest.log''],
         [(''Docker Status'', title st, True),
          (''Server Uptime'', exec_run b server ''uptime'', True),
          (''World Size (Minecraft)'', exec_run b server ''du -h world/level.dat'', True),
          (''Log Tail'', exec_run b server ''tail -n3 logs/latest.log'', False)])
      else ([], [(''Docker Status'', title st, True)]))"

text \<open>Lines 97 to 139 of status: the report on the target list that line 92 settled.\<close>

definition status_report :: "world \<Rightarrow> ctx \<Rightarrow> log_entry \<Rightarrow> string list \<Rightarrow> bool \<Rightarrow> outcome" where
  "status_report w ctx log0 srvs autofilled =
     (if length srvs > 1 then
        send_embed log0 ''Server Statuses'' (target_loop w ctx autofilled status_summary srvs)
      else
        (case srvs of
           [] \<Rightarrow> \<lparr>logs = [log0], calls = [], sent = [], raised = Some IndexError\<rparr>
         | first # others \<Rightarrow>
             send_embed log0 (first @ '' Detailed Status Report'')
               (target_loop w ctx autofilled (status_detail (docker_client w)) srvs)))"

text \<open>The first log line of status (line 89).\<close>

definition status_received :: "ctx \<Rightarrow> log_entry" where
  "status_received ctx =
     log (''Status command received from channel '' @ channel ctx @ '' by ''
          @ author ctx @ '' (id: '' @ author_id ctx @ '')'') ''INFO''"

definition status :: "world \<Rightarrow> ctx \<Rightarrow> string list \<Rightarrow> outcome" where
  "status w ctx srvs =
     (let log0 = status_received ctx
      in if srvs = [] then
           (case perm_check w ctx of
              Inl e \<Rightarrow> \<lparr>logs = [log0], calls = [], sent = [], raised = Some e\<rparr>
            | Inr allowed \<Rightarrow> status_report w ctx log0 allowed True)
         else status_report w ctx log0 srvs False)"

definition restart :: "world \<Rightarrow> ctx \<Rightarrow> string list \<Rightarrow> outcome" where
  "restart w ctx srvs =
     send_embed
       (log (''Executing restart command for '' @ join '','' srvs @ '' from '' @ channel ctx
             @ '', initiated by '' @ author ctx) ''INFO'')
       ''Restart Results''
       (target_loop w ctx False
          (\<lambda>server st. ([Container_restart server], [(server, ''Restart Sent'', True)])) srvs)"

definition kill :: "world \<Rightarrow> ctx \<Rightarrow> string list \<Rightarrow> outcome" where
  "kill w ctx srvs =
     send_embed
       (log (''Executing the kill command for '' @ join '','' srvs @ '' from '' @ channel ctx)
            ''INFO'')
       ''SIGKILL Results''
       (target_loop w ctx False
          (\<lambda>server st. ([Container_kill server],
                         [(server, ''SIGKILL Sent - status is '' @ st, True)])) srvs)"

definition start :: "world \<Rightarrow> ctx \<Rightarrow> string list \<Rightarrow> outcome" where
  "start w ctx srvs =
     send_embed
       (log (''Executing the start command for '' @ join '','' srvs @ '' from '' @ channel ctx)
            ''INFO'')
       ''Start Results''
       (target_loop w ctx False
          (\<lambda>server st. ([Container_start server], [(server, st, True)])) srvs)"

definition newline :: string where
  "newline = [CHR 0x0A]"




text \<open>
  The text a user gives for \<open>numlines\<close>: one that \<open>int()\<close> converts, or one on which
  \<open>int()\<close> raises \<open>ValueError\<close>.
\<close>

datatype numlines_arg = Int_arg int | Not_int string

text \<open>
  The parameter is declared \<open>numlines: int = 10\<close> (line 311): the command framework
  converts the text with \<open>int()\<close> before the function runs and raises \<open>BadArgument\<close>
  when that fails; without a text the default 10 is passed.
\<close>

fun convert_numlines :: "numlines_arg option \<Rightarrow> py_error + int" where
  "convert_numlines None = Inr 10"
| "convert_numlines (Some (Int_arg i)) = Inr i"
| "convert_numlines (Some (Not_int s)) = Inl BadArgument"

text \<open>\<open>int(numlines)\<close> in the function, where \<open>numlines\<close> is an integer already.\<close>

definition py_int :: "int \<Rightarrow> py_error + int" where
  "py_int i = Inr i"

text \<open>
  The function of get\_logs (lines 313 to 334). The \<open>except ValueError\<close> branch would
  put 10 for the count; its \<open>ctx.send\<close> is not awaited, so it would send nothing.
  \<open>containers.get\<close> is outside any \<open>try\<close> here. \<open>len(result)\<close> is the length of
  the character list.
\<close>

definition get_logs_callback :: "world \<Rightarrow> ctx \<Rightarrow> string \<Rightarrow> int \<Rightarrow> outcome" where
  "get_logs_callback w ctx server numlines =
     (let log0 = log (''Log retrieval command executed for server '' @ server @ '' by ''
                      @ author ctx @ '' (id: '' @ author_id ctx @ '')'') ''INFO'';
          n = (case py_int numlines of Inr i \<Rightarrow> i | Inl e \<Rightarrow> 10)
      in case perm_check w ctx of
           Inl e \<Rightarrow> \<lparr>logs = [log0], calls = [], sent = [], raised = Some e\<rparr>
         | Inr allowed \<Rightarrow>
             if server \<in> set allowed then
               (case containers_get (docker_client w) server of
                  None \<Rightarrow> \<lparr>logs = [log0], calls = [], sent = [], raised = Some NotFound\<rparr>
                | Some st \<Rightarrow>
                    (let log_command = ''tail -n'' @ str_int n @ '' logs/latest.log'';
                         result = exec_run (docker_client w) server log_command;
                         text = ''```'' @ result @ ''```''
                     in \<lparr>logs = [log0], calls = [Container_exec server log_command],
                         sent = [if send_fails ctx text then
                                   Text (''Failed to retrieve log results.  Result length shows ''
                                         @ ''to be '' @ str_nat (length result)
                                         @ '' - discord'' @ [CHR 0x27]
                                         @ ''s limit is 2000 per message.'')
                                 else Text text],
                         raised = None\<rparr>))
             else \<lparr>logs = [log0, log_unauthorized ctx [server]], calls = [], sent = [],
                   raised = None\<rparr>)"

text \<open>The command get\_logs as registered: the conversion, then the function.\<close>

definition get_logs :: "world \<Rightarrow> ctx \<Rightarrow> string \<Rightarrow> numlines_arg option \<Rightarrow> outcome" where
  "get_logs w ctx server numlines =
     (case convert_numlines numlines of
        Inl e \<Rightarrow> \<lparr>logs = [], calls = [], sent = [], raised = Some e\<rparr>
      | Inr n \<Rightarrow> get_logs_callback w ctx server n)"

section \<open>Granting and revoking\<close>

text \<open>The entry that lines 251 to 263 append for a target without one.\<close>

definition default_entry :: "string \<Rightarrow> entry" where
  "default_entry target =
     \<lparr>name = target,
      acts = [''backup'' \<mapsto> [], ''cmd'' \<mapsto> [], ''kill'' \<mapsto> [], ''list_backups'' \<mapsto> [],
              ''restart'' \<mapsto> [], ''restore'' \<mapsto> [], ''start'' \<mapsto> [], ''status'' \<mapsto> [],
              ''stop'' \<mapsto> [], ''get_logs'' \<mapsto> []]\<rparr>"

definition target_user :: "ctx \<Rightarrow> string \<Rightarrow> string" where
  "target_user ctx user = (case mentions ctx of [] \<Rightarrow> user | m # ms \<Rightarrow> m)"

text \<open>
  Lines 268 to 274 on one server dict. When \<open>perm\<close> is the key \<open>"name"\<close>, the key exists
  and \<open>server[perm]\<close> is the name, a string: \<open>in\<close> is the substring test, \<open>append\<close>
  raises \<open>AttributeError\<close>, and the comprehension of line 274 would store a list of
  characters under \<open>"name"\<close>, which the record cannot hold: the model stops there with
  \<open>OutsideModel\<close>.
\<close>

definition update_entry :: "string \<Rightarrow> string \<Rightarrow> string \<Rightarrow> entry \<Rightarrow> py_error + entry" where
  "update_entry action tuser perm server =
     (if perm = ''name'' then
        (if action = ''grant'' \<and> \<not> contains (name server) tuser then Inl AttributeError
         else if action = ''revoke'' \<and> contains (name server) tuser then Inl OutsideModel
         else Inr server)
      else
        (let users = (case acts server perm of None \<Rightarrow> [] | Some us \<Rightarrow> us) in
           if action = ''grant'' \<and> tuser \<notin> set users then
             Inr (server\<lparr>acts := (acts server)(perm \<mapsto> users @ [tuser])\<rparr>)
           else if action = ''revoke'' \<and> tuser \<in> set users then
             Inr (server\<lparr>acts := (acts server)(perm \<mapsto> filter (\<lambda>p. p \<noteq> tuser) users)\<rparr>)
           else Inr (server\<lparr>acts := (acts server)(perm \<mapsto> users)\<rparr>)))"

text \<open>
  The loop of line 267 over the servers named \<open>target\<close>, in place: the dicts changed
  before an exception stay changed.
\<close>

fun update_servers ::
  "string \<Rightarrow> string \<Rightarrow> string \<Rightarrow> string \<Rightarrow> entry list \<Rightarrow> entry list \<times> py_error option" where
  "update_servers action tuser target perm [] = ([], None)"
| "update_servers action tuser target perm (server # rest) =
     (if name server = target then
        (case update_entry action tuser perm server of
           Inl e \<Rightarrow> (server # rest, Some e)
         | Inr server' \<Rightarrow>
             (case update_servers action tuser target perm rest of
                (rest', err) \<Rightarrow> (server' # rest', err)))
      else
        (case update_servers action tuser target perm rest of
           (rest', err) \<Rightarrow> (server # rest', err)))"

text \<open>Lines 250 to 274 on the document.\<close>

definition update_document ::
  "string \<Rightarrow> string \<Rightarrow> string \<Rightarrow> string \<Rightarrow> document \<Rightarrow> document \<times> py_error option" where
  "update_document action tuser target perm doc =
     (let srvs = (if target \<notin> set (map name (servers doc))
                  then servers doc @ [default_entry target] else servers doc)
      in case update_servers action tuser target perm srvs of
           (srvs', err) \<Rightarrow> (doc\<lparr>servers := srvs'\<rparr>, err))"

text \<open>
  What the permissions command does: the module state afterwards, the log, whether the
  invoking message is deleted, whether a DM channel is created, the direct messages sent.
\<close>

record perm_outcome =
  after :: world
  perm_logs :: "log_entry list"
  deleted :: bool
  dm_created :: bool
  dm_sent :: "string list"
  perm_raised :: "py_error option"

definition permissions ::
  "world \<Rightarrow> ctx \<Rightarrow> string \<Rightarrow> string \<Rightarrow> string \<Rightarrow> string \<Rightarrow> perm_outcome" where
  "permissions w ctx action user target perm =
     (case json_permissions w of
        None \<Rightarrow> \<lparr>after = w, perm_logs = [], deleted = False, dm_created = False, dm_sent = [],
                 perm_raised = Some TypeError\<rparr>
      | Some doc \<Rightarrow>
          if author_id ctx \<in> set (admins doc) then
            (case update_document action (target_user ctx user) target perm doc of
               (doc', Some e) \<Rightarrow>
                 \<lparr>after = w\<lparr>json_permissions := Some doc'\<rparr>, perm_logs = [], deleted = False,
                  dm_created = False, dm_sent = [], perm_raised = Some e\<rparr>
             | (doc', None) \<Rightarrow>
                 \<lparr>after = w\<lparr>json_permissions := Some doc', permissions_file := Dumped doc'\<rparr>,
                  perm_logs =
                    [log (title action @ '' '' @ perm @ '' permissions to '' @ user
                          @ '' for server '' @ target @ '' at the request of admin ''
                          @ author ctx @ '' (id: '' @ author_id ctx @ '')''
                          @ '' executed successfully.'') ''INFO''],
                  deleted = (\<not> private_or_group ctx),
                  dm_created = (\<not> dm_channel ctx),
                  dm_sent =
                    [''Requested permissions change has been processed:'' @ newline
                     @ ''```'' @ newline @ title action @ '' '' @ perm @ '' permissions to ''
                     @ user @ '' for server '' @ target @ '' at the request of '' @ author ctx
                     @ '' (id: '' @ author_id ctx @ '')```''],
                  perm_raised = None\<rparr>)
          else
            \<lparr>after = w, perm_logs = [log_unauthorized ctx [''PERMISSIONS_FILE'']],
             deleted = False, dm_created = False, dm_sent = [], perm_raised = None\<rparr>)"

definition dump_perms :: "world \<Rightarrow> ctx \<Rightarrow> outcome" where
  "dump_perms w ctx =
     (case json_permissions w of
        None \<Rightarrow> \<lparr>logs = [], calls = [], sent = [], raised = Some TypeError\<rparr>
      | Some doc \<Rightarrow>
          if author_id ctx \<in> set (admins doc) then
            \<lparr>logs = [log (''Dumped permissions to chat per request from admin '' @ author ctx
                          @ '' (id: '' @ author_id ctx @ '')'') ''INFO''],
             calls = [], sent = [Json_dump doc], raised = None\<rparr>
          else \<lparr>logs = [log_unauthorized ctx [''DEBUG_FUNCTION'']], calls = [], sent = [],
                raised = None\<rparr>)"

section \<open>A small installation\<close>

text \<open>
  Two containers, \<open>mc\<close> running and \<open>vanilla\<close> stopped; one admin, user \<open>1\<close>; one
  server entry, for \<open>mc\<close>, on which user \<open>2\<close> may run status, restart and get\_logs.
  \<open>vanilla\<close> has no entry. User \<open>3\<close> appears nowhere.
\<close>

definition example_backend :: backend where
  "example_backend =
     \<lparr>containers_list = [''mc'', ''vanilla''],
      containers_get = [''mc'' \<mapsto> ''running'', ''vanilla'' \<mapsto> ''exited''],
      exec_run = (\<lambda>server cmdline. ''ok'')\<rparr>"

definition example_doc :: document where
  "example_doc =
     \<lparr>admins = [''1''],
      servers = [\<lparr>name = ''mc'',
                  acts = [''status'' \<mapsto> [''2''], ''restart'' \<mapsto> [''2''], ''kill'' \<mapsto> [],
                          ''start'' \<mapsto> [], ''cmd'' \<mapsto> [], ''get_logs'' \<mapsto> [''2'']]\<rparr>]\<rparr>"

definition example_world :: world where
  "example_world =
     \<lparr>json_permissions = Some example_doc, permissions_file = Dumped example_doc,
      docker_client = example_backend\<rparr>"

text \<open>A hand-written document whose only entry has no \<open>status\<close> key.\<close>

definition partial_doc :: document where
  "partial_doc =
     \<lparr>admins = [''1''],
      servers = [\<lparr>name = ''mc'', acts = [''restart'' \<mapsto> [''2'']]\<rparr>]\<rparr>"

definition partial_world :: world where
  "partial_world =
     \<lparr>json_permissions = Some partial_doc, permissions_file = Dumped partial_doc,
      docker_client = example_backend\<rparr>"

definition example_ctx :: "command \<Rightarrow> string \<Rightarrow> ctx" where
  "example_ctx c uid =
     \<lparr>command = c, author = ''someone'', author_id = uid, channel = ''general'',
      mentions = [], private_or_group = False, dm_channel = True,
      send_fails = (\<lambda>text. False)\<rparr>"

lemmas example_defs =
  example_backend_def example_doc_def example_world_def partial_doc_def partial_world_def
  example_ctx_def

section \<open>Facts about the shared loop\<close>

lemma fst_log [simp]: "fst (log msg category) = category"
  by (simp add: log_def)

lemma fst_log_unauthorized [simp]: "fst (log_unauthorized ctx srvs) = ''FORBIDDEN''"
  by (simp add: log_unauthorized_def)

text \<open>
  When \<open>perm_check\<close> returns the list \<open>allowed\<close>, the loop logs one denial for each
  target outside it (none when autofilled), and adds the fields target by target.
\<close>

lemma target_loop_result:
  assumes "perm_check w ctx = Inr allowed"
  shows "target_loop w ctx autofilled on_handle srvs =
     (if autofilled then []
      else map (\<lambda>s. log_unauthorized ctx [s]) (filter (\<lambda>s. s \<notin> set allowed) srvs),
      concat (map (\<lambda>s. if s \<in> set allowed then
                           (case containers_get (docker_client w) s of
                              Some st \<Rightarrow> fst (on_handle s st) | None \<Rightarrow> [])
                         else []) srvs),
      concat (map (\<lambda>s. if s \<in> set allowed then
                           (case containers_get (docker_client w) s of
                              Some st \<Rightarrow> snd (on_handle s st) | None \<Rightarrow> [not_found_field s])
                         else if autofilled then [] else [not_found_field s]) srvs),
      None)"
  using assms
  by (induction srvs) (auto split: option.splits prod.splits)

lemma target_loop_error:
  assumes "perm_check w ctx = Inl e" and "srvs \<noteq> []"
  shows "target_loop w ctx autofilled on_handle srvs = ([], [], [], Some e)"
  using assms by (cases srvs) auto

lemma target_loop_autofilled_irrelevant:
  assumes "perm_check w ctx = Inr allowed" and "set srvs \<subseteq> set allowed"
  shows "target_loop w ctx True on_handle srvs = target_loop w ctx False on_handle srvs"
  using assms
  by (induction srvs) (auto split: option.splits prod.splits)

lemma target_loop_explicit:
  assumes "perm_check w ctx = Inr allowed"
  shows "target_loop w ctx False on_handle srvs =
     (map (\<lambda>s. log_unauthorized ctx [s]) (filter (\<lambda>s. s \<notin> set allowed) srvs),
      concat (map (\<lambda>s. if s \<in> set allowed then
                           (case containers_get (docker_client w) s of
                              Some st \<Rightarrow> fst (on_handle s st) | None \<Rightarrow> [])
                         else []) srvs),
      concat (map (\<lambda>s. if s \<in> set allowed then
                           (case containers_get (docker_client w) s of
                              Some st \<Rightarrow> snd (on_handle s st) | None \<Rightarrow> [not_found_field s])
                         else [not_found_field s]) srvs),
      None)"
  using assms
  by (induction srvs) (auto split: option.splits prod.splits)

lemma send_embed_ok:
  "send_embed log0 heading (ls, cs, fs, None) =
     \<lparr>logs = log0 # ls, calls = cs, sent = [Embed heading fs], raised = None\<rparr>"
  by (simp add: send_embed_def)

lemma status_report_autofilled_irrelevant:
  assumes "perm_check w ctx = Inr allowed" and "set srvs \<subseteq> set allowed"
  shows "status_report w ctx log0 srvs True = status_report w ctx log0 srvs False"
  unfolding status_report_def target_loop_autofilled_irrelevant [OF assms]
  by (rule refl)

lemma status_autofill_logs:
  assumes "perm_check w ctx = Inr allowed"
  shows "logs (status_report w ctx log0 srvs True) = [log0]"
  using assms
  by (simp add: status_report_def target_loop_result send_embed_ok
        del: target_loop.simps split: list.splits)

lemma status_summary_fields:
  "map fst (concat (map (\<lambda>s. if s \<in> A then
                            (case g s of
                               Some st \<Rightarrow> snd (status_summary s st)
                             | None \<Rightarrow> [not_found_field s])
                          else [not_found_field s]) xs)) = xs"
  by (induction xs) (auto simp: status_summary_def not_found_field_def split: option.splits)





section \<open>Who may act on what\<close>

text \<open>
  For a user who is not an admin, when every entry has the key of the command,
  \<open>perm_check\<close> returns the names of the entries whose list under that key holds the
  user, in document order.
\<close>

lemma authorized_servers_exact:
  assumes "\<forall>server \<in> set srvs. acts server act \<noteq> None"
  shows "authorized_servers uid act srvs =
         Inr (map name (filter (\<lambda>server. case acts server act of
                                            Some users \<Rightarrow> uid \<in> set users
                                          | None \<Rightarrow> False) srvs))"
  using assms by (induction srvs) auto

lemma authorized_servers_KeyError:
  assumes "server \<in> set srvs" and "acts server act = None"
  shows "authorized_servers uid act srvs = Inl KeyError"
  using assms by (induction srvs) (auto split: option.splits sum.splits)

text \<open>
  Claim C1. For a user listed in \<open>admins\<close>, whatever the command and whatever the
  \<open>servers\<close> part of the document holds, \<open>perm_check\<close> returns all the containers the
  docker client lists, so every target the backend knows passes the test
  \<open>server in perm_check(ctx)\<close>, also one without a server entry.
\<close>

theorem admin_authorized_targets:
  assumes "json_permissions w = Some doc" and "author_id ctx \<in> set (admins doc)"
  shows "perm_check w ctx = Inr (containers_list (docker_client w)) \<and>
         (\<forall>target \<in> set (containers_list (docker_client w)).
            \<exists>allowed. perm_check w ctx = Inr allowed \<and> target \<in> set allowed)"
  using assms by (simp add: perm_check_def)

theorem admin_authorized_targets_witness:
  "perm_check example_world (example_ctx Kill ''1'') = Inr [''mc'', ''vanilla''] \<and>
   ''vanilla'' \<notin> set (map name (servers example_doc)) \<and>
   (\<exists>allowed. perm_check example_world (example_ctx Kill ''1'') = Inr allowed
      \<and> ''vanilla'' \<in> set allowed)"
  using admin_authorized_targets [of example_world example_doc "example_ctx Kill ''1''"]
  by (simp add: example_defs)

text \<open>
  Claim C2. The claim asks that an entry without the key of the command counts as
  authorizing nobody. \<open>perm_check\<close> reads \<open>server[ctx.command.name]\<close> directly: with
  the entry of \<open>partial_doc\<close>, which has no \<open>status\<close> key, the status command of user
  \<open>2\<close> ends in \<open>KeyError\<close> and sends nothing.
\<close>

theorem perm_check_missing_key:
  "perm_check partial_world (example_ctx Status ''2'') = Inl KeyError \<and>
   raised (status partial_world (example_ctx Status ''2'') [''mc'']) = Some KeyError \<and>
   sent (status partial_world (example_ctx Status ''2'') [''mc'']) = []"
  by (simp add: perm_check_def status_def status_report_def send_embed_def example_defs)

section \<open>Start without a permissions file\<close>

text \<open>
  Claim C4. The claim asks for an empty document in memory once the file was found
  absent. \<open>load\<close> logs that it creates the default schema and touches the file, which
  is then empty, but assigns nothing: \<open>json_permissions\<close> stays \<open>None\<close>, not the
  document with no admins and no servers, and the next command that reaches
  \<open>perm_check\<close> or the admin test ends in \<open>TypeError\<close>.
\<close>

theorem absent_file_leaves_None:
  "load_permissions (load Absent) = None \<and>
   load_permissions (load Absent) \<noteq> Some \<lparr>admins = [], servers = []\<rparr> \<and>
   load_file (load Absent) = ZeroBytes \<and>
   load_raised (load Absent) = None \<and>
   raised (restart (boot Absent b) ctx [server]) = Some TypeError \<and>
   sent (restart (boot Absent b) ctx [server]) = [] \<and>
   raised (status (boot Absent b) ctx []) = Some TypeError \<and>
   perm_raised (permissions (boot Absent b) ctx action user target perm) = Some TypeError"
  by (simp add: boot_def restart_def status_def send_embed_def perm_check_def permissions_def)

section \<open>The line count of get\_logs\<close>

lemma str_int_10: "str_int 10 = ''10''"
  by code_simp

text \<open>
  Claim C9. The claim asks that a count that is no integer is replaced by 10 and the log
  still fetched. The function of get\_logs has that fallback, but the count is converted
  before the function runs: user \<open>2\<close>, who may read the log of \<open>mc\<close>, sends
  \<open>get_logs mc abc\<close>, and the command ends in \<open>BadArgument\<close> with no call on the
  container, no log line and no message, where \<open>get_logs mc\<close> runs
  \<open>tail -n10 logs/latest.log\<close>.
\<close>

theorem get_logs_rejects_malformed_count:
  "get_logs example_world (example_ctx Get_logs ''2'') ''mc'' (Some (Not_int ''abc''))
     = \<lparr>logs = [], calls = [], sent = [], raised = Some BadArgument\<rparr> \<and>
   calls (get_logs example_world (example_ctx Get_logs ''2'') ''mc'' None)
     = [Container_exec ''mc'' ''tail -n10 logs/latest.log'']"
proof -
  have p: "perm_check example_world (example_ctx Get_logs ''2'') = Inr [''mc'']"
    by (simp add: perm_check_def example_defs)
  have g: "containers_get (docker_client example_world) ''mc'' = Some ''running''"
    by (simp add: example_defs)
  show ?thesis
    by (simp add: get_logs_def get_logs_callback_def py_int_def Let_def p g str_int_10)
qed

section \<open>status with nothing to show\<close>

text \<open>
  Claim C10. When status is called without targets and \<open>perm_check\<close> returns the empty
  list, the target list stays empty, the branch for at most one target is taken, and
  \<open>servers[0]\<close> raises \<open>IndexError\<close>: nothing is sent.
\<close>

theorem status_nothing_authorized:
  assumes "perm_check w ctx = Inr []"
  shows "raised (status w ctx []) = Some IndexError \<and> sent (status w ctx []) = []"
  using assms by (simp add: status_def status_report_def)

theorem status_nothing_authorized_witness:
  "perm_check example_world (example_ctx Status ''3'') = Inr [] \<and>
   raised (status example_world (example_ctx Status ''3'') []) = Some IndexError \<and>
   sent (status example_world (example_ctx Status ''3'') []) = []"
proof -
  have "perm_check example_world (example_ctx Status ''3'') = Inr []"
    by (simp add: perm_check_def example_defs)
  from this status_nothing_authorized [OF this] show ?thesis by simp
qed

section \<open>Requests without targets\<close>

text \<open>
  Claim C3, as stated: every command on servers, called without targets, works on the
  targets the requester is authorized for. restart does not: user \<open>2\<close> may restart
  \<open>mc\<close>, and \<open>restart\<close> without targets calls no container and sends an embed
  without fields, where \<open>restart mc\<close> restarts the container.
\<close>

theorem restart_not_autofilled:
  "perm_check example_world (example_ctx Restart ''2'') = Inr [''mc''] \<and>
   calls (restart example_world (example_ctx Restart ''2'') []) = [] \<and>
   sent (restart example_world (example_ctx Restart ''2'') []) = [Embed ''Restart Results'' []] \<and>
   calls (restart example_world (example_ctx Restart ''2'') [''mc'']) = [Container_restart ''mc'']"
proof -
  have p: "perm_check example_world (example_ctx Restart ''2'') = Inr [''mc'']"
    by (simp add: perm_check_def example_defs)
  have "containers_get (docker_client example_world) ''mc'' = Some ''running''"
    by (simp add: example_defs)
  with p show ?thesis
    by (simp add: restart_def send_embed_def)
qed

text \<open>
  Claim C3, amended. Only status fills in the targets. When \<open>perm_check\<close> returns a
  non-empty list, status without targets is status on exactly that list, and no log line
  of it is a denial; status with targets reports on the targets as given, not autofilled,
  one field per target when there are several. restart, kill and start without targets
  call no container and send an embed without fields.
\<close>

theorem status_autofill:
  assumes "perm_check w ctx = Inr allowed"
  shows "(allowed \<noteq> [] \<longrightarrow> status w ctx [] = status w ctx allowed) \<and>
         (\<forall>e \<in> set (logs (status w ctx [])). fst e \<noteq> ''FORBIDDEN'') \<and>
         (srvs \<noteq> [] \<longrightarrow>
            status w ctx srvs = status_report w ctx (status_received ctx) srvs False) \<and>
         (1 < length srvs \<longrightarrow>
            (\<exists>fs. sent (status w ctx srvs) = [Embed ''Server Statuses'' fs] \<and> map fst fs = srvs)) \<and>
         (\<forall>run \<in> {restart, kill, start}.
            calls (run w ctx []) = [] \<and> raised (run w ctx []) = None \<and>
            (\<exists>heading. sent (run w ctx []) = [Embed heading []]))"
proof (intro conjI impI)
  assume "allowed \<noteq> []"
  with assms show "status w ctx [] = status w ctx allowed"
    by (simp add: status_def status_report_autofilled_irrelevant)
next
  show "\<forall>e \<in> set (logs (status w ctx [])). fst e \<noteq> ''FORBIDDEN''"
    using assms by (simp add: status_def status_autofill_logs status_received_def)
next
  assume "srvs \<noteq> []"
  then show "status w ctx srvs = status_report w ctx (status_received ctx) srvs False"
    by (simp add: status_def)
next
  assume long: "1 < length srvs"
  then have "srvs \<noteq> []" by auto
  with assms long show
    "\<exists>fs. sent (status w ctx srvs) = [Embed ''Server Statuses'' fs] \<and> map fst fs = srvs"
    by (simp add: status_def status_report_def target_loop_explicit send_embed_ok
          status_summary_fields del: target_loop.simps)
next
  show "\<forall>run \<in> {restart, kill, start}.
            calls (run w ctx []) = [] \<and> raised (run w ctx []) = None \<and>
            (\<exists>heading. sent (run w ctx []) = [Embed heading []])"
    by (simp add: restart_def kill_def start_def send_embed_def)
qed

theorem status_autofill_witness:
  "perm_check example_world (example_ctx Status ''2'') = Inr [''mc''] \<and>
   status example_world (example_ctx Status ''2'') []
     = status example_world (example_ctx Status ''2'') [''mc''] \<and>
   calls (start example_world (example_ctx Status ''2'') []) = []"
proof -
  have p: "perm_check example_world (example_ctx Status ''2'') = Inr [''mc'']"
    by (simp add: perm_check_def example_defs)
  from status_autofill [OF p, of "[''mc'', ''vanilla'']"] p show ?thesis
    by simp
qed

section \<open>Denied targets\<close>





section \<open>The denials in the log\<close>




section \<open>Granting and revoking permissions\<close>

text \<open>
  With a permission other than the key \<open>name\<close>, the loop over the servers named
  \<open>target\<close> raises nothing and changes each of them in the same way.
\<close>

lemma default_entry_users:
  "acts (default_entry target) perm = Some users \<Longrightarrow> users = []"
  by (simp add: default_entry_def split: if_splits)

lemma name_default_entry [simp]: "name (default_entry target) = target"
  by (simp add: default_entry_def)

lemma update_servers_revoke_absent:
  assumes "perm \<noteq> ''name''"
    and "\<forall>e \<in> set srvs. name e = target \<longrightarrow> (\<forall>users. acts e perm = Some users \<longrightarrow> tuser \<notin> set users)"
  shows "update_servers ''revoke'' tuser target perm srvs =
           (map (\<lambda>e. if name e = target \<and> acts e perm = None
                      then e\<lparr>acts := (acts e)(perm \<mapsto> [])\<rparr> else e) srvs, None)"
  using assms
  by (induction srvs) (auto simp: update_entry_def map_upd_triv split: option.splits)

lemma update_servers_grant:
  assumes "perm \<noteq> ''name''"
  shows "update_servers ''grant'' tuser target perm srvs =
           (map (\<lambda>e. if name e = target
                      then e\<lparr>acts := (acts e)(perm \<mapsto>
                             (case acts e perm of
                                None \<Rightarrow> [tuser]
                              | Some users \<Rightarrow> if tuser \<in> set users then users else users @ [tuser]))\<rparr>
                      else e) srvs, None)"
  using assms
  by (induction srvs) (auto simp: update_entry_def Let_def split: option.splits)

lemma count_list_grant:
  assumes "count_list users tuser \<le> 1"
  shows "count_list (if tuser \<in> set users then users else users @ [tuser]) tuser = 1"
proof (cases "tuser \<in> set users")
  case True
  then have "count_list users tuser \<noteq> 0"
    by (simp add: count_list_0_iff)
  with assms True show ?thesis by simp
next
  case False
  then show ?thesis by (simp add: count_list_0_iff)
qed

lemma permissions_done:
  assumes "json_permissions w = Some doc" and "author_id ctx \<in> set (admins doc)"
    and "update_document action (target_user ctx user) target perm doc = (doc', None)"
  shows "after (permissions w ctx action user target perm)
           = w\<lparr>json_permissions := Some doc', permissions_file := Dumped doc'\<rparr> \<and>
         perm_raised (permissions w ctx action user target perm) = None"
  using assms by (simp add: permissions_def)

text \<open>
  Claim C8. An admin revokes \<open>perm\<close> on \<open>target\<close> from a user who is in none of the
  lists under \<open>perm\<close> of the entries named \<open>target\<close>. The document afterwards is the
  document before, except that an entry for \<open>target\<close> is appended when there was none,
  and that the key \<open>perm\<close> is created, empty, where an entry named \<open>target\<close> lacked
  it. When the entry and the key were there already, the document is unchanged.
\<close>

theorem revoke_absent_user:
  assumes "json_permissions w = Some doc" and "author_id ctx \<in> set (admins doc)"
    and "perm \<noteq> ''name''"
    and "\<forall>e \<in> set (servers doc). name e = target \<longrightarrow>
           (\<forall>users. acts e perm = Some users \<longrightarrow> target_user ctx user \<notin> set users)"
  shows "perm_raised (permissions w ctx ''revoke'' user target perm) = None \<and>
         json_permissions (after (permissions w ctx ''revoke'' user target perm)) =
           Some (doc\<lparr>servers :=
                   map (\<lambda>e. if name e = target \<and> acts e perm = None
                             then e\<lparr>acts := (acts e)(perm \<mapsto> [])\<rparr> else e)
                     (if target \<notin> set (map name (servers doc))
                      then servers doc @ [default_entry target] else servers doc)\<rparr>) \<and>
         (target \<in> set (map name (servers doc)) \<and>
          (\<forall>e \<in> set (servers doc). name e = target \<longrightarrow> acts e perm \<noteq> None) \<longrightarrow>
            json_permissions (after (permissions w ctx ''revoke'' user target perm)) = Some doc)"
proof -
  let ?srvs = "if target \<notin> set (map name (servers doc))
               then servers doc @ [default_entry target] else servers doc"
  let ?fill = "\<lambda>e. if name e = target \<and> acts e perm = None
                    then e\<lparr>acts := (acts e)(perm \<mapsto> [])\<rparr> else e"
  have absent: "\<forall>e \<in> set ?srvs. name e = target \<longrightarrow>
           (\<forall>users. acts e perm = Some users \<longrightarrow> target_user ctx user \<notin> set users)"
    using assms(4) by (auto dest: default_entry_users)
  have upd: "update_document ''revoke'' (target_user ctx user) target perm doc
               = (doc\<lparr>servers := map ?fill ?srvs\<rparr>, None)"
    unfolding update_document_def Let_def update_servers_revoke_absent [OF assms(3) absent]
    by simp
  have run: "perm_raised (permissions w ctx ''revoke'' user target perm) = None \<and>
         json_permissions (after (permissions w ctx ''revoke'' user target perm)) =
           Some (doc\<lparr>servers := map ?fill ?srvs\<rparr>)"
    using assms(1,2) by (simp add: permissions_def upd)
  have "map ?fill (servers doc) = servers doc"
    if "\<forall>e \<in> set (servers doc). name e = target \<longrightarrow> acts e perm \<noteq> None"
    using that by (intro map_idI) auto
  with run show ?thesis
    by auto
qed


theorem revoke_absent_user_witness:
  "author_id (example_ctx Permissions ''1'') \<in> set (admins example_doc) \<and>
   json_permissions (after (permissions example_world (example_ctx Permissions ''1'')
       ''revoke'' ''3'' ''mc'' ''status'')) = Some example_doc \<and>
   perm_raised (permissions example_world (example_ctx Permissions ''1'')
       ''revoke'' ''3'' ''mc'' ''status'') = None"
  using revoke_absent_user [of example_world example_doc "example_ctx Permissions ''1''"
      "''status''" "''mc''" "''3''"]
  by (simp add: example_defs target_user_def)

text \<open>
  Claim C7. An admin grants \<open>perm\<close> on \<open>target\<close> to a user twice. Both commands end
  without an exception, the second leaves the document in memory and the file as the
  first left them, there is an entry named \<open>target\<close>, and in every such entry the
  list under \<open>perm\<close> holds the user exactly once. The lists are taken to hold the user
  at most once beforehand, as the sets they stand for do.
\<close>

theorem grant_twice:
  assumes "json_permissions w = Some doc" and "author_id ctx \<in> set (admins doc)"
    and "perm \<noteq> ''name''"
    and "\<forall>e \<in> set (servers doc). name e = target \<longrightarrow>
           (\<forall>users. acts e perm = Some users \<longrightarrow> count_list users (target_user ctx user) \<le> 1)"
    and "once = permissions w ctx ''grant'' user target perm"
    and "twice = permissions (after once) ctx ''grant'' user target perm"
  shows "perm_raised once = None \<and> perm_raised twice = None \<and>
         after twice = after once \<and>
         (\<exists>doc'. json_permissions (after twice) = Some doc' \<and>
            (\<exists>e \<in> set (servers doc'). name e = target) \<and>
            (\<forall>e \<in> set (servers doc'). name e = target \<longrightarrow>
               (\<exists>users. acts e perm = Some users \<and>
                  count_list users (target_user ctx user) = 1)))"
proof -
  let ?u = "target_user ctx user"
  define srvs where "srvs = (if target \<notin> set (map name (servers doc))
               then servers doc @ [default_entry target] else servers doc)"
  define grant :: "entry \<Rightarrow> entry" where "grant = (\<lambda>e. if name e = target
                     then e\<lparr>acts := (acts e)(perm \<mapsto>
                            (case acts e perm of
                               None \<Rightarrow> [?u]
                             | Some users \<Rightarrow> if ?u \<in> set users then users else users @ [?u]))\<rparr>
                     else e)"
  define doc' where "doc' = doc\<lparr>servers := map grant srvs\<rparr>"
  define w' where "w' = w\<lparr>json_permissions := Some doc', permissions_file := Dumped doc'\<rparr>"
  have names: "map name (map grant xs) = map name xs" for xs
    by (induction xs) (auto simp: grant_def)
  have listed: "target \<in> set (map name srvs)"
    by (simp add: srvs_def)
  have first: "update_document ''grant'' ?u target perm doc = (doc', None)"
    unfolding update_document_def Let_def update_servers_grant [OF assms(3)]
    by (simp add: doc'_def grant_def srvs_def)
  have once: "after once = w' \<and> perm_raised once = None"
    unfolding assms(5) w'_def by (rule permissions_done [OF assms(1,2) first])
  have keeps: "name (grant e) = name e" for e
    by (simp add: grant_def)
  have idem: "grant (grant e) = grant e" for e
  proof (cases "name e = target")
    case False
    then show ?thesis by (simp add: grant_def)
  next
    case True
    show ?thesis
    proof (cases "acts e perm")
      case None
      with True show ?thesis by (simp add: grant_def)
    next
      case (Some users)
      with True show ?thesis by (simp add: grant_def)
    qed
  qed
  have again: "map grant (map grant srvs) = map grant srvs"
    by (simp add: idem)
  have sel: "servers doc' = map grant srvs" and adm: "admins doc' = admins doc"
    by (simp_all add: doc'_def)
  have "target \<in> set (map name (servers doc'))"
    unfolding sel names by (rule listed)
  then have "update_document ''grant'' ?u target perm doc'
      = (doc'\<lparr>servers := map grant (servers doc')\<rparr>, None)"
    unfolding update_document_def Let_def update_servers_grant [OF assms(3)]
    by (simp add: grant_def)
  then have second: "update_document ''grant'' ?u target perm doc' = (doc', None)"
    unfolding sel again by (simp add: doc'_def)
  have loaded: "json_permissions w' = Some doc'"
    by (simp add: w'_def)
  have admin: "author_id ctx \<in> set (admins doc')"
    unfolding adm by (rule assms(2))
  have "after twice = w'\<lparr>json_permissions := Some doc', permissions_file := Dumped doc'\<rparr>
          \<and> perm_raised twice = None"
    unfolding assms(6) conjunct1 [OF once] by (rule permissions_done [OF loaded admin second])
  then have twice: "after twice = w' \<and> perm_raised twice = None"
    by (simp add: w'_def)
  have small: "\<forall>e \<in> set srvs. name e = target \<longrightarrow>
           (\<forall>users. acts e perm = Some users \<longrightarrow> count_list users ?u \<le> 1)"
  proof (intro ballI impI allI)
    fix e users
    assume e: "e \<in> set srvs" "name e = target" "acts e perm = Some users"
    show "count_list users ?u \<le> 1"
    proof (cases "e \<in> set (servers doc)")
      case True
      with assms(4) e show ?thesis by blast
    next
      case False
      with e(1) have "e = default_entry target"
        by (simp add: srvs_def split: if_splits)
      with e(3) have "users = []"
        by (simp add: default_entry_users)
      then show ?thesis by simp
    qed
  qed
  have counted: "\<exists>users. acts e' perm = Some users \<and> count_list users ?u = 1"
    if "e' \<in> set (servers doc')" and "name e' = target" for e'
  proof -
    from that(1) obtain e where "e \<in> set srvs" and "e' = grant e"
      unfolding sel by auto
    with that(2) keeps [of e] have e: "e \<in> set srvs" "e' = grant e" "name e = target"
      by simp_all
    show ?thesis
    proof (cases "acts e perm")
      case None
      with e show ?thesis by (simp add: grant_def)
    next
      case (Some users)
      with small e have "count_list users ?u \<le> 1" by blast
      from count_list_grant [OF this] Some e show ?thesis by (simp add: grant_def)
    qed
  qed
  have "target \<in> set (map name (servers doc'))"
    unfolding sel names by (rule listed)
  then have present: "\<exists>e \<in> set (servers doc'). name e = target"
    by auto
  have "json_permissions (after twice) = Some doc'"
    using twice loaded by simp
  with counted present have
    "\<exists>doc'. json_permissions (after twice) = Some doc' \<and>
            (\<exists>e \<in> set (servers doc'). name e = target) \<and>
            (\<forall>e \<in> set (servers doc'). name e = target \<longrightarrow>
               (\<exists>users. acts e perm = Some users \<and>
                  count_list users (target_user ctx user) = 1))"
    by (intro exI [of _ doc'] conjI) blast+
  moreover have "after twice = after once"
    using twice once by simp
  ultimately show ?thesis
    using twice once by blast
qed

theorem grant_twice_witness:
  "author_id (example_ctx Permissions ''1'') \<in> set (admins example_doc) \<and>
   after (permissions
            (after (permissions example_world (example_ctx Permissions ''1'')
                      ''grant'' ''3'' ''mc'' ''kill''))
            (example_ctx Permissions ''1'') ''grant'' ''3'' ''mc'' ''kill'')
     = after (permissions example_world (example_ctx Permissions ''1'')
                ''grant'' ''3'' ''mc'' ''kill'') \<and>
   perm_raised (permissions example_world (example_ctx Permissions ''1'')
                  ''grant'' ''3'' ''mc'' ''kill'') = None"
proof -
  have loaded: "json_permissions example_world = Some example_doc"
    by (simp add: example_world_def)
  have admin: "author_id (example_ctx Permissions ''1'') \<in> set (admins example_doc)"
    by (simp add: example_defs)
  have key: "''kill'' \<noteq> ''name''"
    by simp
  have once: "\<forall>e \<in> set (servers example_doc). name e = ''mc'' \<longrightarrow>
      (\<forall>users. acts e ''kill'' = Some users \<longrightarrow>
         count_list users (target_user (example_ctx Permissions ''1'') ''3'') \<le> 1)"
    by (simp add: example_doc_def)
  from grant_twice [OF loaded admin key once refl refl] admin show ?thesis
    by blast
qed

end
